theory Spec2Isabelle
  imports Complex_Main
begin

section \<open>Python values, exceptions and effects\<close>

text \<open>
  The program is \<^verbatim>\<open>banks_project.py\<close>: a linear extract-transform-load script. Its own
  code is glue around four libraries (requests, BeautifulSoup, pandas, sqlite3). The
  embedding keeps the script's control flow, its exception handling and its data reshaping
  as HOL functions; what a library decides (the HTTP transport, the HTML parser, the
  tabular parser, the file and store writers, floating-point arithmetic) enters through the
  record \<open>env\<close> below, so every theorem holds for whatever those collaborators do.

  An exception is a value: its class and the text \<^verbatim>\<open>str(e)\<close> gives. All classes listed are
  subclasses of \<^verbatim>\<open>Exception\<close>, which is what the handler in \<^verbatim>\<open>extract\<close> catches.
\<close>

datatype exc_class =
    Exception | AttributeError | ValueError | IndexError | KeyError | TypeError
  | OSError | DatabaseError

datatype py_exception = PyErr (exc_cls: exc_class) (exc_str: string)

text \<open>
  A cell of a DataFrame as the script meets it: text, an integer, or a float (pandas
  stores a missing cell as the float NaN). The float type is a parameter \<open>'f\<close>; the three
  float operations the script relies on are the fields of \<open>float_ops\<close>:
  \<^verbatim>\<open>float(i)\<close> for an integer cell that meets a float rate, \<^verbatim>\<open>a * b\<close>, and
  \<^verbatim>\<open>round(v, ndigits)\<close>.
\<close>

datatype 'f cell = CStr string | CInt int | CFloat 'f

record 'f float_ops =
  float_of_int :: "int \<Rightarrow> 'f"
  float_mul :: "'f \<Rightarrow> 'f \<Rightarrow> 'f"
  float_round :: "'f \<Rightarrow> nat \<Rightarrow> 'f"

text \<open>
  A DataFrame: its columns in order, each a label with the column's values in row order.
  pandas keeps all columns at the same length; the labels of a frame that
  \<^verbatim>\<open>read_html\<close> builds are unique.
\<close>

type_synonym 'f dataframe = "(string \<times> 'f cell list) list"

text \<open>The exchange rates: \<^verbatim>\<open>exchange_rates.items()\<close>, in the dict's iteration order.\<close>

type_synonym 'f rates = "(string \<times> 'f) list"

datatype log_level = INFO | ERROR

text \<open>
  What a run does to the outside, in order. \<open>Call\<close> is a ghost event: \<open>main\<close> records the
  name of each stage function when it calls it.
\<close>

datatype 'f event =
    Log log_level string
  | Call string
  | HttpGet string
  | ToCsv "'f dataframe" string
  | Connect string
  | ToSql "'f dataframe" string
  | Execute string
  | Printed "'f cell list list"

text \<open>A computation: the events it caused, then the exception it raised or its value.\<close>

type_synonym ('f, 'a) io = "'f event list \<times> (py_exception + 'a)"

definition io_bind :: "('f, 'a) io \<Rightarrow> ('a \<Rightarrow> ('f, 'b) io) \<Rightarrow> ('f, 'b) io" where
  "io_bind m k =
     (case m of
        (t, Inl e) \<Rightarrow> (t, Inl e)
      | (t, Inr x) \<Rightarrow> (case k x of (t', r) \<Rightarrow> (t @ t', r)))"

definition emit :: "'f event \<Rightarrow> ('f, unit) io" where
  "emit ev = ([ev], Inr ())"

definition logging_info :: "string \<Rightarrow> ('f, unit) io" where
  "logging_info msg = emit (Log INFO msg)"

definition logging_error :: "string \<Rightarrow> ('f, unit) io" where
  "logging_error msg = emit (Log ERROR msg)"

section \<open>The currency transform\<close>

text \<open>
  \<^verbatim>\<open>df[name]\<close> raises \<^verbatim>\<open>KeyError\<close> for a label the frame does not have (its text is
  the label in quotes).
  \<^verbatim>\<open>df[name] = values\<close> replaces the values of the column with that label where it
  stands, and appends a new last column when there is none.
\<close>

definition key_error :: "string \<Rightarrow> py_exception" where
  "key_error name = PyErr KeyError (CHR 0x27 # name @ [CHR 0x27])"

definition df_getitem :: "'f dataframe \<Rightarrow> string \<Rightarrow> py_exception + 'f cell list" where
  "df_getitem df name =
     (case map_of df name of
        None \<Rightarrow> Inl (key_error name)
      | Some col \<Rightarrow> Inr col)"

fun df_setitem :: "'f dataframe \<Rightarrow> string \<Rightarrow> 'f cell list \<Rightarrow> 'f dataframe" where
  "df_setitem [] name vals = [(name, vals)]"
| "df_setitem ((n, col) # rest) name vals =
     (if n = name then (n, vals) # rest else (n, col) # df_setitem rest name vals)"

definition source_column :: string where
  "source_column = ''Market cap (US$ billion)''"

text \<open>The f-string \<^verbatim>\<open>f'MC_{currency}_Billion'\<close>.\<close>

definition mc_column :: "string \<Rightarrow> string" where
  "mc_column currency = ''MC_'' @ currency @ ''_Billion''"

text \<open>
  \<^verbatim>\<open>x * rate\<close> for a float rate: a string cell raises \<^verbatim>\<open>TypeError\<close>, an integer cell
  is converted to a float first.
\<close>

definition mul_type_error :: py_exception where
  "mul_type_error =
     PyErr TypeError (''can't multiply sequence by non-int of type 'float'' @ [CHR 0x27])"

fun py_mul :: "'f float_ops \<Rightarrow> 'f cell \<Rightarrow> 'f \<Rightarrow> py_exception + 'f" where
  "py_mul ops (CStr s) rate = Inl mul_type_error"
| "py_mul ops (CInt i) rate = Inr (float_mul ops (float_of_int ops i) rate)"
| "py_mul ops (CFloat v) rate = Inr (float_mul ops v rate)"

text \<open>The list comprehension \<^verbatim>\<open>[round(x * rate, 2) for x in column]\<close>.\<close>

fun convert_values :: "'f float_ops \<Rightarrow> 'f \<Rightarrow> 'f cell list \<Rightarrow> py_exception + 'f cell list" where
  "convert_values ops rate [] = Inr []"
| "convert_values ops rate (x # xs) =
     (case py_mul ops x rate of
        Inl e \<Rightarrow> Inl e
      | Inr v \<Rightarrow>
          (case convert_values ops rate xs of
             Inl e \<Rightarrow> Inl e
           | Inr vs \<Rightarrow> Inr (CFloat (float_round ops v 2) # vs)))"

text \<open>
  The \<^verbatim>\<open>for\<close> loop of \<^verbatim>\<open>transform_market_cap\<close>. The frame is updated in place, so the
  loop returns the frame as the caller's object is left, with the exception that stopped
  the loop, if any.
\<close>

fun transform_loop ::
  "'f float_ops \<Rightarrow> 'f dataframe \<Rightarrow> 'f rates \<Rightarrow> 'f dataframe \<times> py_exception option" where
  "transform_loop ops df [] = (df, None)"
| "transform_loop ops df ((currency, rate) # rest) =
     (case df_getitem df source_column of
        Inl e \<Rightarrow> (df, Some e)
      | Inr col \<Rightarrow>
          (case convert_values ops rate col of
             Inl e \<Rightarrow> (df, Some e)
           | Inr vals \<Rightarrow> transform_loop ops (df_setitem df (mc_column currency) vals) rest))"

text \<open>
  \<^verbatim>\<open>transform_market_cap\<close>: the frame object as it is left, and the computation (the log
  record written after the loop, and the frame returned).
\<close>

definition transform_market_cap ::
  "'f float_ops \<Rightarrow> 'f dataframe \<Rightarrow> 'f rates \<Rightarrow> 'f dataframe \<times> ('f, 'f dataframe) io" where
  "transform_market_cap ops df exchange_rates =
     (case transform_loop ops df exchange_rates of
        (df', Some e) \<Rightarrow> (df', ([], Inl e))
      | (df', None) \<Rightarrow>
          (df', io_bind
             (logging_info ''Data transformation complete. Initiating Loading process.'')
             (\<lambda>_. ([], Inr df'))))"

section \<open>The fetcher\<close>

text \<open>
  A response of the transport: its body, and what \<^verbatim>\<open>raise_for_status()\<close> does with its
  status (\<open>None\<close>: it returns; \<open>Some d\<close>: it raises an \<^verbatim>\<open>HTTPError\<close> whose text is \<open>d\<close>).
\<close>

record response =
  response_text :: string
  status_error :: "string option"

text \<open>
  A parsed document as BeautifulSoup holds it: tags with their name and children, and
  strings. (Attributes are left out: the script never reads one.)
\<close>

datatype node = Tag string "node list" | NavigableString string

text \<open>
  The collaborators of one run.
  \<^item> \<open>num_ops\<close>: the float operations.
  \<^item> \<open>read_rates\<close>: \<^verbatim>\<open>pd.read_csv('exchange_rate.csv', index_col=0).to_dict()['Rate']\<close>.
  \<^item> \<open>requests_get\<close>: \<^verbatim>\<open>requests.get(url)\<close>; \<open>Inl d\<close> is a \<^verbatim>\<open>RequestException\<close> (connection
    failure, timeout, invalid URL, ...) whose text is \<open>d\<close>.
  \<^item> \<open>html_parser\<close>: \<^verbatim>\<open>BeautifulSoup(html, 'html.parser')\<close>, the top-level nodes.
  \<^item> \<open>tag_str\<close>: \<^verbatim>\<open>str(tag)\<close>, the markup of a tag.
  \<^item> \<open>read_html\<close>: \<^verbatim>\<open>pd.read_html(StringIO(markup))\<close>.
  \<^item> \<open>to_csv\<close>: \<^verbatim>\<open>df.to_csv(path, index=False)\<close>; \<open>Some e\<close> when it raises.
  \<^item> \<open>sqlite3_connect\<close>: \<^verbatim>\<open>sqlite3.connect(name)\<close>; \<open>Some e\<close> when it raises.
  \<^item> \<open>to_sql\<close>: \<^verbatim>\<open>df.to_sql(table, conn, if_exists='replace', index=False)\<close>.
  \<^item> \<open>cursor_execute\<close>: \<^verbatim>\<open>cursor.execute(query)\<close> then \<^verbatim>\<open>fetchall()\<close>, on the store that
    holds the frame just written.
\<close>

record 'f env =
  num_ops :: "'f float_ops"
  read_rates :: "py_exception + 'f rates"
  requests_get :: "string \<Rightarrow> string + response"
  html_parser :: "string \<Rightarrow> node list"
  tag_str :: "node \<Rightarrow> string"
  read_html :: "string \<Rightarrow> py_exception + 'f dataframe list"
  to_csv :: "'f dataframe \<Rightarrow> string \<Rightarrow> py_exception option"
  sqlite3_connect :: "string \<Rightarrow> py_exception option"
  to_sql :: "'f dataframe \<Rightarrow> string \<Rightarrow> py_exception option"
  cursor_execute :: "'f dataframe \<Rightarrow> string \<Rightarrow> py_exception + 'f cell list list"

definition io_return :: "'a \<Rightarrow> ('f, 'a) io" where
  "io_return x = ([], Inr x)"

definition io_raise :: "py_exception \<Rightarrow> ('f, 'a) io" where
  "io_raise e = ([], Inl e)"

text \<open>A library call that returns nothing: it raises, or it does not.\<close>

definition io_check :: "py_exception option \<Rightarrow> ('f, unit) io" where
  "io_check r = (case r of Some e \<Rightarrow> io_raise e | None \<Rightarrow> io_return ())"

text \<open>\<^verbatim>\<open>try: m  except Exception as e: handler(e)\<close>.\<close>

definition io_try :: "('f, 'a) io \<Rightarrow> (py_exception \<Rightarrow> ('f, 'a) io) \<Rightarrow> ('f, 'a) io" where
  "io_try m handler =
     (case m of
        (t, Inl e) \<Rightarrow> (case handler e of (t', r) \<Rightarrow> (t @ t', r))
      | (t, Inr x) \<Rightarrow> (t, Inr x))"

definition fetch_error :: "string \<Rightarrow> py_exception" where
  "fetch_error d = PyErr Exception (''Error fetching HTML content: '' @ d)"

definition fetch_html :: "'f env \<Rightarrow> string \<Rightarrow> ('f, string) io" where
  "fetch_html env url =
     io_bind (emit (HttpGet url)) (\<lambda>_.
       (case requests_get env url of
          Inl d \<Rightarrow> io_raise (fetch_error d)
        | Inr response \<Rightarrow>
            (case status_error response of
               Some d \<Rightarrow> io_raise (fetch_error d)
             | None \<Rightarrow> io_return (response_text response))))"

section \<open>The table extractor\<close>

text \<open>
  Document order is the order of the opening tags and strings in the markup: a node, then
  its children's subtrees from left to right. \<^verbatim>\<open>soup.find\<close> walks the descendants of the
  document in this order, and \<^verbatim>\<open>find_next\<close> walks the nodes after an element in it (its
  own descendants first).
\<close>

fun preorder :: "node \<Rightarrow> node list" where
  "preorder (NavigableString s) = [NavigableString s]"
| "preorder (Tag name children) = Tag name children # concat (map preorder children)"

definition document_order :: "node list \<Rightarrow> node list" where
  "document_order soup = concat (map preorder soup)"

text \<open>
  \<^verbatim>\<open>tag.string\<close>: the string of a tag whose only child is a string, or whose only child is a
  tag that has a \<^verbatim>\<open>.string\<close>; no value otherwise. \<open>text_content\<close> is all the text below a
  node, as \<^verbatim>\<open>get_text()\<close> joins it.
\<close>

fun string_of :: "node \<Rightarrow> string option" where
  "string_of (NavigableString s) = Some s"
| "string_of (Tag name [child]) = string_of child"
| "string_of (Tag name children) = None"



fun tag_named :: "string \<Rightarrow> node \<Rightarrow> bool" where
  "tag_named name (Tag name' children) = (name' = name)"
| "tag_named name (NavigableString s) = False"

text \<open>
  \<^verbatim>\<open>soup.find(name, string=s)\<close>: the first tag in document order with that name whose
  \<^verbatim>\<open>.string\<close> equals \<open>s\<close>. A result is the element with the nodes before and after it.
  \<^verbatim>\<open>element.find_next(name)\<close>: the first tag with that name among the nodes after it.
\<close>

definition soup_find ::
  "node list \<Rightarrow> string \<Rightarrow> string \<Rightarrow> (node list \<times> node \<times> node list) option" where
  "soup_find elements name s =
     List.extract (\<lambda>n. tag_named name n \<and> string_of n = Some s) elements"

definition find_next :: "node list \<times> node \<times> node list \<Rightarrow> string \<Rightarrow> node option" where
  "find_next element name = (case element of (before, n, after) \<Rightarrow> List.find (tag_named name) after)"

text \<open>\<^verbatim>\<open>str(x)\<close> for the result of \<^verbatim>\<open>find_next\<close>: a tag, or \<^verbatim>\<open>None\<close>.\<close>

definition py_str :: "'f env \<Rightarrow> node option \<Rightarrow> string" where
  "py_str env x = (case x of None \<Rightarrow> ''None'' | Some n \<Rightarrow> tag_str env n)"

definition none_has_no_find_next :: py_exception where
  "none_has_no_find_next =
     PyErr AttributeError
       (CHR 0x27 # ''NoneType' object has no attribute 'find_next'' @ [CHR 0x27])"

definition table_error :: "string \<Rightarrow> py_exception" where
  "table_error d = PyErr Exception (''Error extracting table: '' @ d)"

text \<open>
  \<^verbatim>\<open>extract_table\<close>. The search runs before the \<^verbatim>\<open>try\<close>: when no span matches,
  \<^verbatim>\<open>find\<close> returns \<^verbatim>\<open>None\<close> and the call of \<^verbatim>\<open>find_next\<close> on it raises
  \<^verbatim>\<open>AttributeError\<close>. \<open>read_first_table\<close> is the \<^verbatim>\<open>try\<close> block,
  \<^verbatim>\<open>pd.read_html(StringIO(markup))[0]\<close>: only \<^verbatim>\<open>ValueError\<close> is caught and wrapped; an
  empty list of frames makes the index \<^verbatim>\<open>[0]\<close> raise \<^verbatim>\<open>IndexError\<close>.
\<close>

definition read_first_table :: "'f env \<Rightarrow> string \<Rightarrow> py_exception + 'f dataframe" where
  "read_first_table env markup =
     (case read_html env markup of
        Inl e \<Rightarrow> if exc_cls e = ValueError then Inl (table_error (exc_str e)) else Inl e
      | Inr tables \<Rightarrow>
          (case tables of
             [] \<Rightarrow> Inl (PyErr IndexError ''list index out of range'')
           | df # _ \<Rightarrow> Inr df))"

definition extract_table :: "'f env \<Rightarrow> string \<Rightarrow> string \<Rightarrow> py_exception + 'f dataframe" where
  "extract_table env html table_attribs =
     (let soup = document_order (html_parser env html) in
      case soup_find soup ''span'' table_attribs of
        None \<Rightarrow> Inl none_has_no_find_next
      | Some found \<Rightarrow>
          (let table = find_next found ''table'' in
           read_first_table env (py_str env table)))"

text \<open>
  \<^verbatim>\<open>extract\<close> (named \<open>extract_df\<close> here): any exception of the two steps is logged and
  turned into \<^verbatim>\<open>None\<close>.
\<close>

definition extract_df :: "'f env \<Rightarrow> string \<Rightarrow> string \<Rightarrow> ('f, 'f dataframe option) io" where
  "extract_df env url table_attribs =
     io_try
       (io_bind (fetch_html env url) (\<lambda>html.
        io_bind ([], extract_table env html table_attribs) (\<lambda>df.
        io_bind (logging_info ''Data extraction complete. Initiating Transformation process.'') (\<lambda>_.
        io_return (Some df)))))
       (\<lambda>e. io_bind (logging_error (''Error during extraction: '' @ exc_str e)) (\<lambda>_.
            io_return None))"

section \<open>The sink and the driver\<close>

definition load_to_csv :: "'f env \<Rightarrow> 'f dataframe \<Rightarrow> string \<Rightarrow> ('f, unit) io" where
  "load_to_csv env df output_path =
     io_bind (emit (ToCsv df output_path)) (\<lambda>_.
     io_bind (io_check (to_csv env df output_path)) (\<lambda>_.
     logging_info ''Data saved to CSV file.''))"

definition load_to_db :: "'f env \<Rightarrow> 'f dataframe \<Rightarrow> string \<Rightarrow> ('f, unit) io" where
  "load_to_db env df table_name =
     io_bind (emit (ToSql df table_name)) (\<lambda>_.
     io_bind (io_check (to_sql env df table_name)) (\<lambda>_.
     logging_info ''Data loaded to Database as a table, Executing queries.''))"

definition run_query :: "'f env \<Rightarrow> 'f dataframe \<Rightarrow> string \<Rightarrow> ('f, 'f cell list list) io" where
  "run_query env stored query =
     io_bind (emit (Execute query)) (\<lambda>_.
     io_bind ([], cursor_execute env stored query) (\<lambda>results.
     io_bind (logging_info ''Query executed successfully.'') (\<lambda>_.
     io_return results)))"

definition url :: string where
  "url = ''https://web.archive.org/web/20230908091635/https://en.wikipedia.org/wiki/List_of_largest_banks''"

definition output_csv_path :: string where
  "output_csv_path = ''./Largest_banks_data.csv''"

definition database_name :: string where
  "database_name = ''Banks.db''"

definition table_name :: string where
  "table_name = ''Largest_banks''"

definition anchor :: string where
  "anchor = ''By market capitalization''"

definition query_1 :: string where
  "query_1 = ''SELECT * FROM Largest_banks LIMIT 5''"

definition query_2 :: string where
  "query_2 = ''SELECT AVG(MC_GBP_Billion) FROM Largest_banks''"

definition query_3 :: string where
  "query_3 = ''SELECT '' @ [CHR 0x22] @ ''Bank name'' @ [CHR 0x22] @ '' from Largest_banks LIMIT 5''"

definition call :: "string \<Rightarrow> ('f, 'a) io \<Rightarrow> ('f, 'a) io" where
  "call name m = io_bind (emit (Call name)) (\<lambda>_. m)"

text \<open>One query of \<open>main\<close>: \<^verbatim>\<open>print(run_query(query, conn))\<close>.\<close>

definition print_query :: "'f env \<Rightarrow> 'f dataframe \<Rightarrow> string \<Rightarrow> ('f, unit) io" where
  "print_query env stored query =
     io_bind (call ''run_query'' (run_query env stored query)) (\<lambda>results.
     emit (Printed results))"

text \<open>The body of \<^verbatim>\<open>if df is not None:\<close> in \<open>main\<close>.\<close>

definition load_stages :: "'f env \<Rightarrow> 'f dataframe \<Rightarrow> 'f rates \<Rightarrow> ('f, unit) io" where
  "load_stages env df exchange_rates =
     io_bind (call ''transform_market_cap''
                (snd (transform_market_cap (num_ops env) df exchange_rates))) (\<lambda>df.
     io_bind (call ''load_to_csv'' (load_to_csv env df output_csv_path)) (\<lambda>_.
     io_bind (emit (Connect database_name)) (\<lambda>_.
     io_bind (io_check (sqlite3_connect env database_name)) (\<lambda>_.
     io_bind (call ''load_to_db'' (load_to_db env df table_name)) (\<lambda>_.
     io_bind (print_query env df query_1) (\<lambda>_.
     io_bind (print_query env df query_2) (\<lambda>_.
     print_query env df query_3)))))))"

definition main :: "'f env \<Rightarrow> ('f, unit) io" where
  "main env =
     io_bind ([], read_rates env) (\<lambda>exchange_rates.
     io_bind (logging_info ''Preliminaries complete. Initiating ETL process.'') (\<lambda>_.
     io_bind (call ''extract'' (extract_df env url anchor)) (\<lambda>df.
     io_bind (case df of
                None \<Rightarrow> io_return ()
              | Some df \<Rightarrow> load_stages env df exchange_rates) (\<lambda>_.
     logging_info ''Process completed.''))))"

text \<open>
  The exit status of the process: 0 when \<open>main\<close> returns, 1 when an exception leaves it
  (the interpreter prints the traceback and exits with status 1).
\<close>

definition exit_status :: "('f, unit) io \<Rightarrow> nat" where
  "exit_status run = (case snd run of Inl e \<Rightarrow> 1 | Inr u \<Rightarrow> 0)"


section \<open>Vocabulary of the properties\<close>




text \<open>
  The log records and traces the properties name: the record \<open>transform_market_cap\<close>
  writes when its loop is done, the record \<open>extract\<close> writes for an exception, the events
  of \<open>main\<close> up to a successful extraction, and the events of the body of
  \<^verbatim>\<open>if df is not None:\<close> when every call in it returns (\<open>r1\<close>, \<open>r2\<close>, \<open>r3\<close> are the rows
  of the three queries).
\<close>

definition transformation_complete :: "'f event" where
  "transformation_complete = Log INFO ''Data transformation complete. Initiating Loading process.''"

definition extraction_error :: "py_exception \<Rightarrow> 'f event" where
  "extraction_error e = Log ERROR (''Error during extraction: '' @ exc_str e)"

definition extraction_trace :: "'f event list" where
  "extraction_trace =
     [Log INFO ''Preliminaries complete. Initiating ETL process.'', Call ''extract'', HttpGet url,
      Log INFO ''Data extraction complete. Initiating Transformation process.'']"

definition stages_trace ::
  "'f dataframe \<Rightarrow> 'f cell list list \<Rightarrow> 'f cell list list \<Rightarrow> 'f cell list list \<Rightarrow> 'f event list" where
  "stages_trace df r1 r2 r3 =
     [Call ''transform_market_cap'', transformation_complete,
      Call ''load_to_csv'', ToCsv df output_csv_path, Log INFO ''Data saved to CSV file.'',
      Connect database_name,
      Call ''load_to_db'', ToSql df table_name,
      Log INFO ''Data loaded to Database as a table, Executing queries.'',
      Call ''run_query'', Execute query_1, Log INFO ''Query executed successfully.'', Printed r1,
      Call ''run_query'', Execute query_2, Log INFO ''Query executed successfully.'', Printed r2,
      Call ''run_query'', Execute query_3, Log INFO ''Query executed successfully.'', Printed r3]"

section \<open>Concrete inputs\<close>

text \<open>
  An instance of the float operations for concrete runs: exact rational arithmetic, with
  \<^verbatim>\<open>round\<close> to a number of decimal places, ties to the even neighbour. It stands in for
  binary floating point only in the witnesses; every general theorem is stated for
  arbitrary operations.
\<close>

definition round_half_even :: "rat \<Rightarrow> int" where
  "round_half_even q =
     (let f = \<lfloor>q\<rfloor>; d = q - of_int f in
      if d < 1 / 2 then f else if 1 / 2 < d then f + 1 else if even f then f else f + 1)"

definition decimal_round :: "rat \<Rightarrow> nat \<Rightarrow> rat" where
  "decimal_round q n = of_int (round_half_even (q * 10 ^ n)) / 10 ^ n"

definition exact_ops :: "rat float_ops" where
  "exact_ops = \<lparr>float_of_int = of_int, float_mul = (*), float_round = decimal_round\<rparr>"

text \<open>
  The frames and rates of the concrete runs: a one-row table of banks, a table that already
  has a column \<^verbatim>\<open>MC_EUR_Billion\<close>, a table without the source column, and a table whose
  source column holds a text cell.
\<close>

definition bank_df :: "rat dataframe" where
  "bank_df = [(''Rank'', [CInt 1]), (''Bank name'', [CStr ''ExampleBank'']),
              (''Market cap (US$ billion)'', [CFloat 100])]"

definition eur_gbp :: "rat rates" where
  "eur_gbp = [(''EUR'', 93 / 100), (''GBP'', 8 / 10)]"




text \<open>
  A document for the concrete runs: a plain rendering of a tag, a table, and pages in which
  the caption stands in a span, directly in a heading, or before a table without rows.
  In \<open>demo_env\<close> every collaborator succeeds, and the tabular parser knows the one table.
\<close>

fun render :: "node \<Rightarrow> string" where
  "render (NavigableString s) = s"
| "render (Tag name children) =
     ''<'' @ name @ ''>'' @ concat (map render children) @ ''</'' @ name @ ''>''"

definition banks_table :: node where
  "banks_table =
     Tag ''table''
       [Tag ''tr'' [Tag ''th'' [NavigableString ''Rank''], Tag ''th'' [NavigableString ''Bank name''],
                    Tag ''th'' [NavigableString ''Market cap (US$ billion)'']],
        Tag ''tr'' [Tag ''td'' [NavigableString ''1''], Tag ''td'' [NavigableString ''ExampleBank''],
                    Tag ''td'' [NavigableString ''100.0'']]]"

definition span_page :: "node list" where
  "span_page =
     [Tag ''h2'' [Tag ''span'' [NavigableString ''By market capitalization'']], banks_table]"



definition demo_env :: "node list \<Rightarrow> rat env" where
  "demo_env page =
     \<lparr>num_ops = exact_ops,
      read_rates = Inr eur_gbp,
      requests_get = (\<lambda>u. Inr \<lparr>response_text = ''<html>'', status_error = None\<rparr>),
      html_parser = (\<lambda>html. page),
      tag_str = render,
      read_html = (\<lambda>markup. if markup = render banks_table then Inr [bank_df]
                             else Inl (PyErr ValueError ''No tables found'')),
      to_csv = (\<lambda>df path. None),
      sqlite3_connect = (\<lambda>name. None),
      to_sql = (\<lambda>df name. None),
      cursor_execute = (\<lambda>df query. Inr [])\<rparr>"

text \<open>
  Environments in which one collaborator fails: the transport refuses the connection, the
  server answers with an error status, the disk is full when the file is written.
\<close>

definition refusing_env :: "rat env" where
  "refusing_env = (demo_env span_page)\<lparr>requests_get := (\<lambda>u. Inl ''Connection refused'')\<rparr>"


definition full_disk_env :: "rat env" where
  "full_disk_env = (demo_env span_page)\<lparr>to_csv :=
     (\<lambda>df path. Some (PyErr OSError ''No space left on device''))\<rparr>"

definition enriched_df :: "rat dataframe" where
  "enriched_df = bank_df @ [(''MC_EUR_Billion'', [CFloat 93]), (''MC_GBP_Billion'', [CFloat 80])]"

section \<open>The currency transform: lemmas\<close>















section \<open>The currency transform: properties\<close>














section \<open>The table extractor: properties\<close>












section \<open>The fetcher: properties\<close>

lemma io_bind_Inr: "io_bind (t, Inr x) k = (t @ fst (k x), snd (k x))"
  by (simp add: io_bind_def split: prod.splits)

lemma io_bind_emit: "io_bind (emit ev) k = (ev # fst (k ()), snd (k ()))"
  by (simp add: emit_def io_bind_Inr)

lemma fetch_html_cases:
  "fetch_html env u =
     ([HttpGet u],
      case requests_get env u of
        Inl d \<Rightarrow> Inl (fetch_error d)
      | Inr response \<Rightarrow>
          (case status_error response of
             Some d \<Rightarrow> Inl (fetch_error d)
           | None \<Rightarrow> Inr (response_text response)))"
  by (simp add: fetch_html_def io_bind_emit io_raise_def io_return_def
      split: sum.splits option.splits)



section \<open>The driver: properties\<close>

lemma fst_io_bind:
  "fst (io_bind m k) = (case snd m of Inl e \<Rightarrow> fst m | Inr x \<Rightarrow> fst m @ fst (k x))"
  by (cases m; cases "snd m") (auto simp: io_bind_def split: prod.splits)

lemma snd_io_bind:
  "snd (io_bind m k) = (case snd m of Inl e \<Rightarrow> Inl e | Inr x \<Rightarrow> snd (k x))"
  by (cases m; cases "snd m") (auto simp: io_bind_def split: prod.splits)

lemma fst_io_try:
  "fst (io_try m h) = (case snd m of Inl e \<Rightarrow> fst m @ fst (h e) | Inr x \<Rightarrow> fst m)"
  by (cases m; cases "snd m") (auto simp: io_try_def split: prod.splits)

lemma snd_io_try:
  "snd (io_try m h) = (case snd m of Inl e \<Rightarrow> snd (h e) | Inr x \<Rightarrow> Inr x)"
  by (cases m; cases "snd m") (auto simp: io_try_def split: prod.splits)

lemma emit_simps: "fst (emit ev) = [ev]" "snd (emit ev) = Inr ()"
  by (simp_all add: emit_def)

lemma io_return_simps: "fst (io_return x) = []" "snd (io_return x) = Inr x"
  by (simp_all add: io_return_def)

lemma fst_fetch_html: "fst (fetch_html env u) = [HttpGet u]"
  by (simp add: fetch_html_cases)

lemma extract_df_fetch_failed:
  "snd (fetch_html env u) = Inl e \<Longrightarrow>
   extract_df env u a = ([HttpGet u, extraction_error e], Inr None)"
  by (simp add: prod_eq_iff extract_df_def fst_io_try snd_io_try fst_io_bind snd_io_bind
      fst_fetch_html logging_error_def emit_simps io_return_simps extraction_error_def)

lemma extract_df_table_failed:
  "snd (fetch_html env u) = Inr html \<Longrightarrow> extract_table env html a = Inl e \<Longrightarrow>
   extract_df env u a = ([HttpGet u, extraction_error e], Inr None)"
  by (simp add: prod_eq_iff extract_df_def fst_io_try snd_io_try fst_io_bind snd_io_bind
      fst_fetch_html logging_error_def emit_simps io_return_simps extraction_error_def)

lemma extract_df_ok:
  "snd (fetch_html env u) = Inr html \<Longrightarrow> extract_table env html a = Inr df \<Longrightarrow>
   extract_df env u a =
     ([HttpGet u, Log INFO ''Data extraction complete. Initiating Transformation process.''],
      Inr (Some df))"
  by (simp add: prod_eq_iff extract_df_def fst_io_try snd_io_try fst_io_bind snd_io_bind
      fst_fetch_html logging_info_def emit_simps io_return_simps)

lemma main_extraction_failed:
  assumes "read_rates env = Inr rates"
    and "extract_df env url anchor = ([HttpGet url, extraction_error e], Inr None)"
  shows "main env =
     ([Log INFO ''Preliminaries complete. Initiating ETL process.'', Call ''extract'', HttpGet url,
       extraction_error e, Log INFO ''Process completed.''], Inr ())"
  using assms
  by (simp add: main_def io_bind_def call_def logging_info_def emit_def io_return_def)

lemma main_extraction_ok:
  assumes "read_rates env = Inr rates"
    and "extract_df env url anchor =
      ([HttpGet url, Log INFO ''Data extraction complete. Initiating Transformation process.''],
       Inr (Some df))"
  shows "main env =
     io_bind
       ([Log INFO ''Preliminaries complete. Initiating ETL process.'', Call ''extract'', HttpGet url,
         Log INFO ''Data extraction complete. Initiating Transformation process.''],
        Inr ())
       (\<lambda>_. io_bind (load_stages env df rates) (\<lambda>_. logging_info ''Process completed.''))"
  using assms
  by (simp add: main_def io_bind_def call_def logging_info_def emit_def io_return_def
      split: prod.splits sum.splits)

lemma transform_market_cap_io:
  "snd (transform_market_cap ops df rates) =
     (case snd (transform_loop ops df rates) of
        Some e \<Rightarrow> ([], Inl e)
      | None \<Rightarrow> ([transformation_complete], Inr (fst (transform_loop ops df rates))))"
  by (cases "transform_loop ops df rates")
     (simp add: transform_market_cap_def io_bind_def logging_info_def emit_def
        transformation_complete_def split: option.splits)

lemma io_check_simps:
  "fst (io_check r) = []"
  "snd (io_check r) = (case r of Some e \<Rightarrow> Inl e | None \<Rightarrow> Inr ())"
  by (simp_all add: io_check_def io_raise_def io_return_def split: option.splits)

lemma call_simps:
  "fst (call name m) = Call name # fst m" "snd (call name m) = snd m"
  by (simp_all add: call_def fst_io_bind snd_io_bind emit_simps split: sum.splits)

lemma load_to_csv_simps:
  "snd (load_to_csv env df path) = (case to_csv env df path of Some e \<Rightarrow> Inl e | None \<Rightarrow> Inr ())"
  "fst (load_to_csv env df path) =
     (case to_csv env df path of
        Some e \<Rightarrow> [ToCsv df path]
      | None \<Rightarrow> [ToCsv df path, Log INFO ''Data saved to CSV file.''])"
  by (simp_all add: load_to_csv_def fst_io_bind snd_io_bind emit_simps io_check_simps
      logging_info_def split: option.splits)

lemma load_to_db_simps:
  "snd (load_to_db env df name) = (case to_sql env df name of Some e \<Rightarrow> Inl e | None \<Rightarrow> Inr ())"
  "fst (load_to_db env df name) =
     (case to_sql env df name of
        Some e \<Rightarrow> [ToSql df name]
      | None \<Rightarrow> [ToSql df name, Log INFO ''Data loaded to Database as a table, Executing queries.''])"
  by (simp_all add: load_to_db_def fst_io_bind snd_io_bind emit_simps io_check_simps
      logging_info_def split: option.splits)

lemma print_query_simps:
  "snd (print_query env df q) = (case cursor_execute env df q of Inl e \<Rightarrow> Inl e | Inr rows \<Rightarrow> Inr ())"
  "fst (print_query env df q) =
     (case cursor_execute env df q of
        Inl e \<Rightarrow> [Call ''run_query'', Execute q]
      | Inr rows \<Rightarrow> [Call ''run_query'', Execute q, Log INFO ''Query executed successfully.'',
                      Printed rows])"
  by (simp_all add: print_query_def run_query_def fst_io_bind snd_io_bind emit_simps call_simps
      logging_info_def io_return_def split: sum.splits)

lemma load_stages_result:
  "snd (load_stages env df rates) =
     (case snd (snd (transform_market_cap (num_ops env) df rates)) of
        Inl e \<Rightarrow> Inl e
      | Inr df' \<Rightarrow>
         (case to_csv env df' output_csv_path of
            Some e \<Rightarrow> Inl e
          | None \<Rightarrow>
             (case sqlite3_connect env database_name of
                Some e \<Rightarrow> Inl e
              | None \<Rightarrow>
                 (case to_sql env df' table_name of
                    Some e \<Rightarrow> Inl e
                  | None \<Rightarrow>
                     (case cursor_execute env df' query_1 of
                        Inl e \<Rightarrow> Inl e
                      | Inr r1 \<Rightarrow>
                         (case cursor_execute env df' query_2 of
                            Inl e \<Rightarrow> Inl e
                          | Inr r2 \<Rightarrow>
                             (case cursor_execute env df' query_3 of
                                Inl e \<Rightarrow> Inl e
                              | Inr r3 \<Rightarrow> Inr ())))))))"
  by (auto simp: load_stages_def snd_io_bind call_simps load_to_csv_simps load_to_db_simps
      print_query_simps emit_simps io_check_simps split: sum.splits option.splits)

lemma fst_snd_transform_market_cap:
  "fst (snd (transform_market_cap ops df rates)) =
     (case snd (snd (transform_market_cap ops df rates)) of
        Inl e \<Rightarrow> []
      | Inr df' \<Rightarrow> [transformation_complete])"
  by (simp add: transform_market_cap_io split: option.splits)

lemma load_stages_trace:
  "fst (load_stages env df rates) =
     (case snd (snd (transform_market_cap (num_ops env) df rates)) of
        Inl e \<Rightarrow> take 1 (stages_trace df [] [] [])
      | Inr df' \<Rightarrow>
         (case to_csv env df' output_csv_path of
            Some e \<Rightarrow> take 4 (stages_trace df' [] [] [])
          | None \<Rightarrow>
             (case sqlite3_connect env database_name of
                Some e \<Rightarrow> take 6 (stages_trace df' [] [] [])
              | None \<Rightarrow>
                 (case to_sql env df' table_name of
                    Some e \<Rightarrow> take 8 (stages_trace df' [] [] [])
                  | None \<Rightarrow>
                     (case cursor_execute env df' query_1 of
                        Inl e \<Rightarrow> take 11 (stages_trace df' [] [] [])
                      | Inr r1 \<Rightarrow>
                         (case cursor_execute env df' query_2 of
                            Inl e \<Rightarrow> take 15 (stages_trace df' r1 [] [])
                          | Inr r2 \<Rightarrow>
                             (case cursor_execute env df' query_3 of
                                Inl e \<Rightarrow> take 19 (stages_trace df' r1 r2 [])
                              | Inr r3 \<Rightarrow> stages_trace df' r1 r2 r3)))))))"
  by (auto simp: load_stages_def fst_io_bind snd_io_bind call_simps load_to_csv_simps
      load_to_db_simps print_query_simps emit_simps io_check_simps stages_trace_def
      fst_snd_transform_market_cap split: sum.splits option.splits)

lemma main_after_extraction:
  assumes "read_rates env = Inr rates"
    and "snd (fetch_html env url) = Inr html" and "extract_table env html anchor = Inr df"
  shows "fst (main env) =
      (case snd (load_stages env df rates) of
         Inl e \<Rightarrow> extraction_trace @ fst (load_stages env df rates)
       | Inr u \<Rightarrow> extraction_trace @ fst (load_stages env df rates) @ [Log INFO ''Process completed.''])"
    and "snd (main env) = snd (load_stages env df rates)"
  using main_extraction_ok [OF assms(1) extract_df_ok [OF assms(2,3)]]
  by (simp_all add: fst_io_bind snd_io_bind logging_info_def emit_simps extraction_trace_def
      split: sum.splits)

lemma main_when_extraction_fails:
  assumes "read_rates env = Inr rates"
    and "snd (fetch_html env url) = Inl e
         \<or> (\<exists>html. snd (fetch_html env url) = Inr html \<and> extract_table env html anchor = Inl e)"
  shows "main env =
     ([Log INFO ''Preliminaries complete. Initiating ETL process.'', Call ''extract'', HttpGet url,
       Log ERROR (''Error during extraction: '' @ exc_str e), Log INFO ''Process completed.''],
      Inr ())"
proof -
  from assms(2) have "extract_df env url anchor = ([HttpGet url, extraction_error e], Inr None)"
    using extract_df_fetch_failed extract_df_table_failed by blast
  from main_extraction_failed [OF assms(1) this] show ?thesis
    by (simp add: extraction_error_def)
qed

text \<open>
  Claim C7. With the rates loaded: when the fetch or the table extraction raises, \<open>main\<close>
  logs the error, logs the end of the process and returns, and its events hold no call of
  the transform, no write and no query; when the transform, the file write or the store
  write raises, the same exception leaves \<open>main\<close> and the failing call is the last event
  of the run.
\<close>

theorem main_short_circuits:
  assumes "read_rates env = Inr rates"
  shows "(\<forall>e. snd (fetch_html env url) = Inl e
            \<or> (\<exists>html. snd (fetch_html env url) = Inr html \<and> extract_table env html anchor = Inl e) \<longrightarrow>
          main env =
            ([Log INFO ''Preliminaries complete. Initiating ETL process.'', Call ''extract'',
              HttpGet url, Log ERROR (''Error during extraction: '' @ exc_str e),
              Log INFO ''Process completed.''],
             Inr ()))
    \<and> (\<forall>html df. snd (fetch_html env url) = Inr html \<and> extract_table env html anchor = Inr df \<longrightarrow>
          (\<forall>e. snd (snd (transform_market_cap (num_ops env) df rates)) = Inl e \<longrightarrow>
             snd (main env) = Inl e \<and> last (fst (main env)) = Call ''transform_market_cap'')
        \<and> (\<forall>df' e. snd (snd (transform_market_cap (num_ops env) df rates)) = Inr df'
               \<and> to_csv env df' output_csv_path = Some e \<longrightarrow>
             snd (main env) = Inl e \<and> last (fst (main env)) = ToCsv df' output_csv_path)
        \<and> (\<forall>df' e. snd (snd (transform_market_cap (num_ops env) df rates)) = Inr df'
               \<and> to_csv env df' output_csv_path = None
               \<and> sqlite3_connect env database_name = None
               \<and> to_sql env df' table_name = Some e \<longrightarrow>
             snd (main env) = Inl e \<and> last (fst (main env)) = ToSql df' table_name))"
proof (intro conjI allI impI)
  fix e
  assume "snd (fetch_html env url) = Inl e
      \<or> (\<exists>html. snd (fetch_html env url) = Inr html \<and> extract_table env html anchor = Inl e)"
  with assms show "main env =
            ([Log INFO ''Preliminaries complete. Initiating ETL process.'', Call ''extract'',
              HttpGet url, Log ERROR (''Error during extraction: '' @ exc_str e),
              Log INFO ''Process completed.''],
             Inr ())"
    by (rule main_when_extraction_fails)
next
  fix html df e
  assume ok: "snd (fetch_html env url) = Inr html \<and> extract_table env html anchor = Inr df"
    and failed: "snd (snd (transform_market_cap (num_ops env) df rates)) = Inl e"
  from ok have m: "fst (main env) =
      (case snd (load_stages env df rates) of
         Inl e \<Rightarrow> extraction_trace @ fst (load_stages env df rates)
       | Inr u \<Rightarrow> extraction_trace @ fst (load_stages env df rates) @ [Log INFO ''Process completed.''])"
    "snd (main env) = snd (load_stages env df rates)"
    using main_after_extraction [OF assms] by blast+
  from failed show "snd (main env) = Inl e"
    by (simp add: m load_stages_result)
  from failed show "last (fst (main env)) = Call ''transform_market_cap''"
    by (simp add: m load_stages_result load_stages_trace stages_trace_def)
next
  fix html df df' e
  assume ok: "snd (fetch_html env url) = Inr html \<and> extract_table env html anchor = Inr df"
    and failed: "snd (snd (transform_market_cap (num_ops env) df rates)) = Inr df'
               \<and> to_csv env df' output_csv_path = Some e"
  from ok have m: "fst (main env) =
      (case snd (load_stages env df rates) of
         Inl e \<Rightarrow> extraction_trace @ fst (load_stages env df rates)
       | Inr u \<Rightarrow> extraction_trace @ fst (load_stages env df rates) @ [Log INFO ''Process completed.''])"
    "snd (main env) = snd (load_stages env df rates)"
    using main_after_extraction [OF assms] by blast+
  from failed show "snd (main env) = Inl e"
    by (simp add: m load_stages_result)
  from failed show "last (fst (main env)) = ToCsv df' output_csv_path"
    by (simp add: m load_stages_result load_stages_trace stages_trace_def)
next
  fix html df df' e
  assume ok: "snd (fetch_html env url) = Inr html \<and> extract_table env html anchor = Inr df"
    and failed: "snd (snd (transform_market_cap (num_ops env) df rates)) = Inr df'
               \<and> to_csv env df' output_csv_path = None
               \<and> sqlite3_connect env database_name = None
               \<and> to_sql env df' table_name = Some e"
  from ok have m: "fst (main env) =
      (case snd (load_stages env df rates) of
         Inl e \<Rightarrow> extraction_trace @ fst (load_stages env df rates)
       | Inr u \<Rightarrow> extraction_trace @ fst (load_stages env df rates) @ [Log INFO ''Process completed.''])"
    "snd (main env) = snd (load_stages env df rates)"
    using main_after_extraction [OF assms] by blast+
  from failed show "snd (main env) = Inl e"
    by (simp add: m load_stages_result)
  from failed show "last (fst (main env)) = ToSql df' table_name"
    by (simp add: m load_stages_result load_stages_trace stages_trace_def)
qed

lemma exit_status_simps:
  "exit_status (t, Inr u) = 0" "exit_status (t, Inl e) = 1"
  by (simp_all add: exit_status_def)

text \<open>
  Facts about the concrete runs: the transport of \<open>demo_env\<close> answers, the page with the
  caption in a span yields the table of banks, and that table is transformed into the
  table with the two currency columns.
\<close>

lemma demo_fetch: "snd (fetch_html (demo_env page) url) = Inr ''<html>''"
  by (simp add: fetch_html_cases demo_env_def)

lemma span_page_table:
  "extract_table (demo_env span_page\<lparr>to_csv := w\<rparr>) ''<html>'' anchor = Inr bank_df"
  by (simp add: demo_env_def span_page_def document_order_def banks_table_def anchor_def
      read_first_table_def extract_table_def soup_find_def List.extract_def find_next_def
      py_str_def)

lemma bank_df_transformed:
  "snd (snd (transform_market_cap exact_ops bank_df eur_gbp)) = Inr enriched_df"
proof -
  have r1: "decimal_round (100 * (93 / 100)) 2 = 93" by code_simp
  have r2: "decimal_round (100 * (8 / 10)) 2 = 80" by code_simp
  show ?thesis
    using r1 r2
    by (simp add: transform_market_cap_io bank_df_def eur_gbp_def enriched_df_def df_getitem_def
        source_column_def mc_column_def exact_ops_def)
qed

text \<open>
  The theorem of C7 at a run whose transport refuses the connection, and at a run whose
  file write fails on a full disk.
\<close>

theorem main_short_circuits_witness:
  "main refusing_env =
     ([Log INFO ''Preliminaries complete. Initiating ETL process.'', Call ''extract'', HttpGet url,
       Log ERROR ''Error during extraction: Error fetching HTML content: Connection refused'',
       Log INFO ''Process completed.''],
      Inr ())
   \<and> snd (main full_disk_env) = Inl (PyErr OSError ''No space left on device'')
   \<and> last (fst (main full_disk_env)) = ToCsv enriched_df output_csv_path"
proof -
  have rates1: "read_rates refusing_env = Inr eur_gbp"
    by (simp add: refusing_env_def demo_env_def)
  have refused: "snd (fetch_html refusing_env url) = Inl (fetch_error ''Connection refused'')"
    by (simp add: fetch_html_cases refusing_env_def)
  have a: "main refusing_env =
     ([Log INFO ''Preliminaries complete. Initiating ETL process.'', Call ''extract'', HttpGet url,
       Log ERROR (''Error during extraction: '' @ exc_str (fetch_error ''Connection refused'')),
       Log INFO ''Process completed.''],
      Inr ())"
    using main_short_circuits [OF rates1] refused by blast
  have rates2: "read_rates full_disk_env = Inr eur_gbp"
    by (simp add: full_disk_env_def demo_env_def)
  have fetched: "snd (fetch_html full_disk_env url) = Inr ''<html>''"
    by (simp add: fetch_html_cases full_disk_env_def demo_env_def)
  have table: "extract_table full_disk_env ''<html>'' anchor = Inr bank_df"
    unfolding full_disk_env_def by (rule span_page_table)
  have transformed:
    "snd (snd (transform_market_cap (num_ops full_disk_env) bank_df eur_gbp)) = Inr enriched_df"
    using bank_df_transformed by (simp add: full_disk_env_def demo_env_def)
  have full: "to_csv full_disk_env enriched_df output_csv_path =
      Some (PyErr OSError ''No space left on device'')"
    by (simp add: full_disk_env_def)
  have b: "snd (main full_disk_env) = Inl (PyErr OSError ''No space left on device'')
      \<and> last (fst (main full_disk_env)) = ToCsv enriched_df output_csv_path"
    using main_short_circuits [OF rates2] fetched table transformed full by blast
  from a b show ?thesis by (simp add: fetch_error_def)
qed

text \<open>
  Claim C6, as amended. With the rates loaded: when the fetch or the table extraction
  raises, the error is logged and the process exits with status 0; after a successful
  extraction the process exits with status 0 exactly when the transform, the file write,
  the connection, the store write and the three queries all return, and then its events
  are those of the complete run, queries included; otherwise it exits with status 1, and
  no error record is logged.
\<close>

theorem main_exit_status:
  assumes "read_rates env = Inr rates"
  shows "(\<forall>e. snd (fetch_html env url) = Inl e
            \<or> (\<exists>html. snd (fetch_html env url) = Inr html \<and> extract_table env html anchor = Inl e) \<longrightarrow>
          exit_status (main env) = 0
          \<and> Log ERROR (''Error during extraction: '' @ exc_str e) \<in> set (fst (main env)))
    \<and> (\<forall>html df. snd (fetch_html env url) = Inr html \<and> extract_table env html anchor = Inr df \<longrightarrow>
          (exit_status (main env) = 0 \<longleftrightarrow>
             (\<exists>df' r1 r2 r3.
                snd (snd (transform_market_cap (num_ops env) df rates)) = Inr df'
                \<and> to_csv env df' output_csv_path = None
                \<and> sqlite3_connect env database_name = None
                \<and> to_sql env df' table_name = None
                \<and> cursor_execute env df' query_1 = Inr r1
                \<and> cursor_execute env df' query_2 = Inr r2
                \<and> cursor_execute env df' query_3 = Inr r3))
        \<and> (\<forall>df' r1 r2 r3.
                snd (snd (transform_market_cap (num_ops env) df rates)) = Inr df'
                \<and> to_csv env df' output_csv_path = None
                \<and> sqlite3_connect env database_name = None
                \<and> to_sql env df' table_name = None
                \<and> cursor_execute env df' query_1 = Inr r1
                \<and> cursor_execute env df' query_2 = Inr r2
                \<and> cursor_execute env df' query_3 = Inr r3 \<longrightarrow>
                fst (main env) =
                  extraction_trace @ stages_trace df' r1 r2 r3 @ [Log INFO ''Process completed.''])
        \<and> (exit_status (main env) \<noteq> 0 \<longrightarrow>
             exit_status (main env) = 1 \<and> (\<forall>m. Log ERROR m \<notin> set (fst (main env)))))"
proof (intro conjI allI impI)
  fix e
  assume "snd (fetch_html env url) = Inl e
      \<or> (\<exists>html. snd (fetch_html env url) = Inr html \<and> extract_table env html anchor = Inl e)"
  with assms have m: "main env =
     ([Log INFO ''Preliminaries complete. Initiating ETL process.'', Call ''extract'', HttpGet url,
       Log ERROR (''Error during extraction: '' @ exc_str e), Log INFO ''Process completed.''],
      Inr ())"
    by (rule main_when_extraction_fails)
  show "exit_status (main env) = 0" by (simp add: m exit_status_simps)
  show "Log ERROR (''Error during extraction: '' @ exc_str e) \<in> set (fst (main env))"
    by (simp add: m)
next
  fix html df
  assume ok: "snd (fetch_html env url) = Inr html \<and> extract_table env html anchor = Inr df"
  then have m: "fst (main env) =
      (case snd (load_stages env df rates) of
         Inl e \<Rightarrow> extraction_trace @ fst (load_stages env df rates)
       | Inr u \<Rightarrow> extraction_trace @ fst (load_stages env df rates) @ [Log INFO ''Process completed.''])"
    "snd (main env) = snd (load_stages env df rates)"
    using main_after_extraction [OF assms] by blast+
  show "exit_status (main env) = 0 \<longleftrightarrow>
             (\<exists>df' r1 r2 r3.
                snd (snd (transform_market_cap (num_ops env) df rates)) = Inr df'
                \<and> to_csv env df' output_csv_path = None
                \<and> sqlite3_connect env database_name = None
                \<and> to_sql env df' table_name = None
                \<and> cursor_execute env df' query_1 = Inr r1
                \<and> cursor_execute env df' query_2 = Inr r2
                \<and> cursor_execute env df' query_3 = Inr r3)"
    by (auto simp: exit_status_def m load_stages_result split: sum.splits option.splits)
  show "fst (main env) =
      extraction_trace @ stages_trace df' r1 r2 r3 @ [Log INFO ''Process completed.'']"
    if "snd (snd (transform_market_cap (num_ops env) df rates)) = Inr df'
                \<and> to_csv env df' output_csv_path = None
                \<and> sqlite3_connect env database_name = None
                \<and> to_sql env df' table_name = None
                \<and> cursor_execute env df' query_1 = Inr r1
                \<and> cursor_execute env df' query_2 = Inr r2
                \<and> cursor_execute env df' query_3 = Inr r3" for df' r1 r2 r3
    using that by (simp add: m load_stages_result load_stages_trace)
  assume "exit_status (main env) \<noteq> 0"
  then obtain e where failed: "snd (load_stages env df rates) = Inl e"
    by (cases "snd (load_stages env df rates)") (simp_all add: exit_status_def m)
  then show "exit_status (main env) = 1" by (simp add: exit_status_def m)
  have "\<forall>m. Log ERROR m \<notin> set (fst (load_stages env df rates))"
    by (auto simp: load_stages_trace stages_trace_def transformation_complete_def
        split: sum.splits option.splits)
  with failed show "Log ERROR msg \<notin> set (fst (main env))" for msg
    by (simp add: m extraction_trace_def)
qed

text \<open>
  The theorem of C6 at a run whose transport refuses the connection, at a run in which
  every stage succeeds, and at a run whose file write fails.
\<close>

theorem main_exit_status_witness:
  "exit_status (main refusing_env) = 0
   \<and> Log ERROR ''Error during extraction: Error fetching HTML content: Connection refused''
       \<in> set (fst (main refusing_env))
   \<and> exit_status (main (demo_env span_page)) = 0
   \<and> fst (main (demo_env span_page)) =
       extraction_trace @ stages_trace enriched_df [] [] [] @ [Log INFO ''Process completed.'']
   \<and> exit_status (main full_disk_env) = 1"
proof -
  have rates1: "read_rates refusing_env = Inr eur_gbp"
    by (simp add: refusing_env_def demo_env_def)
  have refused: "snd (fetch_html refusing_env url) = Inl (fetch_error ''Connection refused'')"
    by (simp add: fetch_html_cases refusing_env_def)
  have a: "exit_status (main refusing_env) = 0
      \<and> Log ERROR (''Error during extraction: '' @ exc_str (fetch_error ''Connection refused''))
          \<in> set (fst (main refusing_env))"
    using main_exit_status [OF rates1] refused by blast
  have rates2: "read_rates (demo_env span_page) = Inr eur_gbp"
    by (simp add: demo_env_def)
  have table2: "extract_table (demo_env span_page) ''<html>'' anchor = Inr bank_df"
    using span_page_table [of "to_csv (demo_env span_page)"] by simp
  have stages2:
    "snd (snd (transform_market_cap (num_ops (demo_env span_page)) bank_df eur_gbp)) = Inr enriched_df
     \<and> to_csv (demo_env span_page) enriched_df output_csv_path = None
     \<and> sqlite3_connect (demo_env span_page) database_name = None
     \<and> to_sql (demo_env span_page) enriched_df table_name = None
     \<and> cursor_execute (demo_env span_page) enriched_df query_1 = Inr []
     \<and> cursor_execute (demo_env span_page) enriched_df query_2 = Inr []
     \<and> cursor_execute (demo_env span_page) enriched_df query_3 = Inr []"
    using bank_df_transformed by (simp add: demo_env_def)
  have b: "exit_status (main (demo_env span_page)) = 0
      \<and> fst (main (demo_env span_page)) =
        extraction_trace @ stages_trace enriched_df [] [] [] @ [Log INFO ''Process completed.'']"
    using main_exit_status [OF rates2] demo_fetch [of span_page] table2 stages2 by blast
  have rates3: "read_rates full_disk_env = Inr eur_gbp"
    by (simp add: full_disk_env_def demo_env_def)
  have fetched: "snd (fetch_html full_disk_env url) = Inr ''<html>''"
    by (simp add: fetch_html_cases full_disk_env_def demo_env_def)
  have table3: "extract_table full_disk_env ''<html>'' anchor = Inr bank_df"
    unfolding full_disk_env_def by (rule span_page_table)
  have full: "\<forall>df'. to_csv full_disk_env df' output_csv_path \<noteq> None"
    by (simp add: full_disk_env_def)
  have c: "exit_status (main full_disk_env) = 1"
    using main_exit_status [OF rates3] fetched table3 full by blast
  from a b c show ?thesis by (simp add: fetch_error_def)
qed

text \<open>
  Claim C6 as stated fails when the fetch fails: the process exits with status 0, and the
  transform was never called.
\<close>

theorem main_exit_status_counterexample:
  "snd (fetch_html refusing_env url) =
     Inl (PyErr Exception ''Error fetching HTML content: Connection refused'')
   \<and> read_rates refusing_env = Inr eur_gbp
   \<and> exit_status (main refusing_env) = 0
   \<and> Call ''transform_market_cap'' \<notin> set (fst (main refusing_env))"
  by (simp add: fetch_html_cases refusing_env_def demo_env_def fetch_error_def exit_status_def
      main_def snd_io_bind fst_io_bind call_simps logging_info_def emit_simps extract_df_def
      snd_io_try fst_io_try logging_error_def io_return_simps)

end
